theory Spec2Isabelle
  imports Main "HOL-Library.Word" "HOL-Library.Sublist"
begin

section \<open>Data model of index.ts\<close>

text \<open>
  Addresses and call data are the template-literal strings \<^verbatim>\<open>0x${string}\<close> of the
  source; a \<^verbatim>\<open>bigint\<close> is an unbounded integer.
\<close>

type_synonym address = string
type_synonym hex = string

text \<open>An argument handed to a contract call: a \<^verbatim>\<open>bigint\<close> or an address string.\<close>

datatype abi_value = AUint int | AAddress address

text \<open>One entry of an ABI constant; inputs and outputs are (name, type) pairs.\<close>

record abi_function =
  abi_name :: string
  abi_type :: string
  abi_stateMutability :: string
  abi_inputs :: "(string \<times> string) list"
  abi_outputs :: "(string \<times> string) list"

definition ERC20_ABI :: "abi_function list" where
  "ERC20_ABI =
    [ \<lparr> abi_name = ''balanceOf'', abi_type = ''function'', abi_stateMutability = ''view'',
        abi_inputs = [(''account'', ''address'')],
        abi_outputs = [('''', ''uint256'')] \<rparr>,
      \<lparr> abi_name = ''allowance'', abi_type = ''function'', abi_stateMutability = ''view'',
        abi_inputs = [(''owner'', ''address''), (''spender'', ''address'')],
        abi_outputs = [('''', ''uint256'')] \<rparr> ]"

definition ERC4626_ABI :: "abi_function list" where
  "ERC4626_ABI =
    [ \<lparr> abi_name = ''asset'', abi_type = ''function'', abi_stateMutability = ''view'',
        abi_inputs = [],
        abi_outputs = [('''', ''address'')] \<rparr>,
      \<lparr> abi_name = ''maxDeposit'', abi_type = ''function'', abi_stateMutability = ''view'',
        abi_inputs = [(''receiver'', ''address'')],
        abi_outputs = [('''', ''uint256'')] \<rparr>,
      \<lparr> abi_name = ''deposit'', abi_type = ''function'',
        abi_stateMutability = ''nonpayable'',
        abi_inputs = [(''assets'', ''uint256''), (''receiver'', ''address'')],
        abi_outputs = [(''shares'', ''uint256'')] \<rparr> ]"

record DepositParams =
  wallet :: address
  vault :: address
  amount :: int

text \<open>
  The \<^verbatim>\<open>Transaction\<close> type of the source, fields \<^verbatim>\<open>data\<close>, \<^verbatim>\<open>from\<close>, \<^verbatim>\<open>to\<close>,
  \<^verbatim>\<open>value\<close>, \<^verbatim>\<open>gas\<close> (prefixed here, several being reserved words).
\<close>

record Transaction =
  tx_data :: hex
  tx_from :: address
  tx_to :: address
  tx_value :: int
  tx_gas :: int

subsection \<open>Errors\<close>

text \<open>The three exported error classes; each constructor passes a fixed message to \<^verbatim>\<open>Error\<close>.\<close>

datatype error_class =
  NotEnoughBalanceError | MissingAllowanceError | AmountExceedsMaxDepositError

fun message :: "error_class \<Rightarrow> string" where
  "message NotEnoughBalanceError = ''Not enough balance''"
| "message MissingAllowanceError = ''Not enough allowance''"
| "message AmountExceedsMaxDepositError = ''Amount exceeds max deposit''"

text \<open>What the call encoder rejects (a call that is not well-typed).\<close>

datatype encode_error =
  AbiFunctionNotFound | AbiEncodingLengthMismatch | InvalidAbiEncodingType
  | IntegerOutOfRange | InvalidAddress

text \<open>
  Everything a call of \<^verbatim>\<open>deposit\<close> can reject with: one of its own three errors, a
  failure \<open>e\<close> of the client carried as it is, or a failure of the encoder.
\<close>

datatype 'e thrown =
  Thrown error_class | ClientError 'e | EncodeError encode_error

subsection \<open>The client\<close>

text \<open>The parameter objects of \<^verbatim>\<open>client.readContract\<close> and \<^verbatim>\<open>client.estimateGas\<close>.\<close>

record readContract_params =
  rc_address :: address
  rc_abi :: "abi_function list"
  rc_functionName :: string
  rc_args :: "abi_value list"

record estimateGas_params =
  eg_account :: address
  eg_to :: address
  eg_data :: hex
  eg_value :: int

text \<open>
  The \<^verbatim>\<open>PublicClient\<close> is supplied by the caller. Each call takes the state \<open>'s\<close> of
  the world behind it (the chain, the transport) and returns the next one, so that two
  reads need not agree; it either fails with some \<open>'e\<close> or returns a value.
  \<^verbatim>\<open>readContract\<close> decodes the result by the \<^verbatim>\<open>outputs\<close> entry of the function
  called: an address string for \<^verbatim>\<open>asset\<close>, a \<^verbatim>\<open>uint256\<close> for \<^verbatim>\<open>balanceOf\<close>,
  \<^verbatim>\<open>allowance\<close> and \<^verbatim>\<open>maxDeposit\<close>. The two result types are two fields here; the
  \<^verbatim>\<open>as\<close> casts of the source are erased at run time.
\<close>

record ('s, 'e) PublicClient =
  readContract_address :: "readContract_params \<Rightarrow> 's \<Rightarrow> ('e + address) \<times> 's"
  readContract_uint256 :: "readContract_params \<Rightarrow> 's \<Rightarrow> ('e + 256 word) \<times> 's"
  estimateGas :: "estimateGas_params \<Rightarrow> 's \<Rightarrow> ('e + int) \<times> 's"

section \<open>The call encoder\<close>

text \<open>
  Modelled from the spec: \<^verbatim>\<open>encodeFunctionData\<close> is imported from the viem package and
  is not among the sources. The specification (sections 4.1 and 6) describes it as a pure,
  deterministic encoder: the 4-byte selector derived from the canonical function
  signature, followed by fixed-width big-endian-padded argument words, which cannot fail
  on a well-typed call. The model renders the bytes as the lower-case hex string the
  source's \<^verbatim>\<open>data\<close> field holds, takes the hash behind the selector as the parameter
  \<open>keccak256\<close>, covers the two argument types of the ABI constants, and rejects a call
  that is not well-typed (unknown function, wrong number or type of arguments, an
  integer outside \<^verbatim>\<open>uint256\<close>, a string that is not \<^verbatim>\<open>0x\<close> and forty hex digits).
  \<open>isAddress\<close> is this syntactic check only, the one the specification names; an
  encoder that also checks the mixed-case checksum of an address rejects more strings.
  The general properties of \<^verbatim>\<open>deposit\<close> below therefore take the success of the
  encoding as a hypothesis and never derive it from \<open>isAddress\<close>; only the
  evaluations on the test double decide it, at a wallet written in checksum form and at
  one that is no hex string at all.
\<close>

definition hex_digit :: "nat \<Rightarrow> char" where
  "hex_digit d = ''0123456789abcdef'' ! (d mod 16)"

fun hex_fixed :: "nat \<Rightarrow> nat \<Rightarrow> string" where
  "hex_fixed 0 v = []"
| "hex_fixed (Suc n) v = hex_fixed n (v div 16) @ [hex_digit (v mod 16)]"

definition is_hex_char :: "char \<Rightarrow> bool" where
  "is_hex_char c = (c \<in> set ''0123456789abcdefABCDEF'')"

definition toLowerCase :: "char \<Rightarrow> char" where
  "toLowerCase c =
     (case map_of (zip ''ABCDEFGHIJKLMNOPQRSTUVWXYZ'' ''abcdefghijklmnopqrstuvwxyz'') c of
        Some l \<Rightarrow> l
      | None \<Rightarrow> c)"

definition isAddress :: "address \<Rightarrow> bool" where
  "isAddress a = (length a = 42 \<and> take 2 a = ''0x'' \<and> list_all is_hex_char (drop 2 a))"

fun encodeAbiParameter :: "string \<Rightarrow> abi_value \<Rightarrow> encode_error + string" where
  "encodeAbiParameter ty (AUint v) =
     (if ty = ''uint256''
      then (if 0 \<le> v \<and> v < 2 ^ 256 then Inr (hex_fixed 64 (nat v))
            else Inl IntegerOutOfRange)
      else Inl InvalidAbiEncodingType)"
| "encodeAbiParameter ty (AAddress a) =
     (if ty = ''address''
      then (if isAddress a
            then Inr (replicate 24 (CHR ''0'') @ map toLowerCase (drop 2 a))
            else Inl InvalidAddress)
      else Inl InvalidAbiEncodingType)"

fun encodeAbiParameters :: "string list \<Rightarrow> abi_value list \<Rightarrow> encode_error + string" where
  "encodeAbiParameters [] [] = Inr []"
| "encodeAbiParameters (t # ts) (v # vs) =
     (case encodeAbiParameter t v of
        Inl e \<Rightarrow> Inl e
      | Inr w \<Rightarrow>
          (case encodeAbiParameters ts vs of
             Inl e \<Rightarrow> Inl e
           | Inr ws \<Rightarrow> Inr (w @ ws)))"
| "encodeAbiParameters _ _ = Inl AbiEncodingLengthMismatch"

fun join_commas :: "string list \<Rightarrow> string" where
  "join_commas [] = []"
| "join_commas [t] = t"
| "join_commas (t # ts) = t @ '','' @ join_commas ts"

text \<open>The canonical signature: the name and the comma-separated input types.\<close>

definition formatAbiItem :: "abi_function \<Rightarrow> string" where
  "formatAbiItem f = abi_name f @ ''('' @ join_commas (map snd (abi_inputs f)) @ '')''"

text \<open>The selector: the first four bytes of the hash of the signature, as eight hex digits.\<close>

definition toFunctionSelector :: "(string \<Rightarrow> 256 word) \<Rightarrow> string \<Rightarrow> string" where
  "toFunctionSelector keccak256 sig = hex_fixed 8 (unat (drop_bit 224 (keccak256 sig)))"

definition encodeFunctionData ::
  "(string \<Rightarrow> 256 word) \<Rightarrow> abi_function list \<Rightarrow> string \<Rightarrow> abi_value list
     \<Rightarrow> encode_error + hex" where
  "encodeFunctionData keccak256 abi functionName args =
     (case find (\<lambda>f. abi_type f = ''function'' \<and> abi_name f = functionName) abi of
        None \<Rightarrow> Inl AbiFunctionNotFound
      | Some f \<Rightarrow>
          (if length (abi_inputs f) \<noteq> length args then Inl AbiEncodingLengthMismatch
           else (case encodeAbiParameters (map snd (abi_inputs f)) args of
                   Inl e \<Rightarrow> Inl e
                 | Inr ws \<Rightarrow>
                     Inr (''0x'' @ toFunctionSelector keccak256 (formatAbiItem f) @ ws))))"

section \<open>deposit\<close>

text \<open>
  An \<^verbatim>\<open>async\<close> function is a computation over the state behind the client that ends
  rejected (\<open>Inl\<close>) or resolved (\<open>Inr\<close>). \<open>await m k\<close> is \<^verbatim>\<open>const v = await m; k(v)\<close>:
  a rejection of \<open>m\<close> leaves the function at once, with the client's failure as it is.
  \<^verbatim>\<open>deposit\<close> follows the source statement by statement; its first argument is the
  hash the encoder needs, the second the client, the third the \<^verbatim>\<open>DepositParams\<close>.
\<close>

definition await ::
  "('s \<Rightarrow> ('e + 'a) \<times> 's) \<Rightarrow> ('a \<Rightarrow> 's \<Rightarrow> ('e thrown + 'b) \<times> 's)
     \<Rightarrow> 's \<Rightarrow> ('e thrown + 'b) \<times> 's" where
  "await m k s =
     (case m s of
        (Inl e, s') \<Rightarrow> (Inl (ClientError e), s')
      | (Inr v, s') \<Rightarrow> k v s')"

definition reject :: "'e thrown \<Rightarrow> 's \<Rightarrow> ('e thrown + 'b) \<times> 's" where
  "reject x s = (Inl x, s)"

definition resolve :: "'b \<Rightarrow> 's \<Rightarrow> ('e thrown + 'b) \<times> 's" where
  "resolve v s = (Inr v, s)"

definition deposit ::
  "(string \<Rightarrow> 256 word) \<Rightarrow> ('s, 'e) PublicClient \<Rightarrow> DepositParams
     \<Rightarrow> 's \<Rightarrow> ('e thrown + Transaction) \<times> 's" where
  "deposit keccak256 client p =
     await (readContract_address client
              \<lparr> rc_address = vault p, rc_abi = ERC4626_ABI,
                rc_functionName = ''asset'', rc_args = [] \<rparr>)
       (\<lambda>assetAddress.
     await (readContract_uint256 client
              \<lparr> rc_address = assetAddress, rc_abi = ERC20_ABI,
                rc_functionName = ''balanceOf'', rc_args = [AAddress (wallet p)] \<rparr>)
       (\<lambda>balance.
     if uint balance < amount p then reject (Thrown NotEnoughBalanceError)
     else
     await (readContract_uint256 client
              \<lparr> rc_address = assetAddress, rc_abi = ERC20_ABI,
                rc_functionName = ''allowance'',
                rc_args = [AAddress (wallet p), AAddress (vault p)] \<rparr>)
       (\<lambda>allowance.
     if uint allowance < amount p then reject (Thrown MissingAllowanceError)
     else
     await (readContract_uint256 client
              \<lparr> rc_address = vault p, rc_abi = ERC4626_ABI,
                rc_functionName = ''maxDeposit'', rc_args = [AAddress (wallet p)] \<rparr>)
       (\<lambda>maxDeposit.
     if amount p > uint maxDeposit then reject (Thrown AmountExceedsMaxDepositError)
     else
     (case encodeFunctionData keccak256 ERC4626_ABI ''deposit''
             [AUint (amount p), AAddress (wallet p)] of
        Inl err \<Rightarrow> reject (EncodeError err)
      | Inr data \<Rightarrow>
     await (estimateGas client
              \<lparr> eg_account = wallet p, eg_to = vault p, eg_data = data, eg_value = 0 \<rparr>)
       (\<lambda>gas.
     resolve \<lparr> tx_data = data, tx_from = wallet p, tx_to = vault p,
               tx_value = 0, tx_gas = gas \<rparr>))))))"

section \<open>Observing a call\<close>

text \<open>The five requests \<^verbatim>\<open>deposit\<close> makes, as it builds them, and the call data it asks for.\<close>

definition asset_call :: "DepositParams \<Rightarrow> readContract_params" where
  "asset_call p =
     \<lparr> rc_address = vault p, rc_abi = ERC4626_ABI,
       rc_functionName = ''asset'', rc_args = [] \<rparr>"

definition balanceOf_call :: "DepositParams \<Rightarrow> address \<Rightarrow> readContract_params" where
  "balanceOf_call p a =
     \<lparr> rc_address = a, rc_abi = ERC20_ABI,
       rc_functionName = ''balanceOf'', rc_args = [AAddress (wallet p)] \<rparr>"

definition allowance_call :: "DepositParams \<Rightarrow> address \<Rightarrow> readContract_params" where
  "allowance_call p a =
     \<lparr> rc_address = a, rc_abi = ERC20_ABI,
       rc_functionName = ''allowance'',
       rc_args = [AAddress (wallet p), AAddress (vault p)] \<rparr>"

definition maxDeposit_call :: "DepositParams \<Rightarrow> readContract_params" where
  "maxDeposit_call p =
     \<lparr> rc_address = vault p, rc_abi = ERC4626_ABI,
       rc_functionName = ''maxDeposit'', rc_args = [AAddress (wallet p)] \<rparr>"

definition deposit_calldata ::
  "(string \<Rightarrow> 256 word) \<Rightarrow> DepositParams \<Rightarrow> encode_error + hex" where
  "deposit_calldata keccak256 p =
     encodeFunctionData keccak256 ERC4626_ABI ''deposit''
       [AUint (amount p), AAddress (wallet p)]"

definition estimateGas_call :: "DepositParams \<Rightarrow> hex \<Rightarrow> estimateGas_params" where
  "estimateGas_call p d =
     \<lparr> eg_account = wallet p, eg_to = vault p, eg_data = d, eg_value = 0 \<rparr>"

text \<open>
  One interaction with the chain: the request and what came back. \<open>spy c\<close> is the
  client \<open>c\<close> with a transcript: it answers as \<open>c\<close> does and appends every call to a
  log kept beside the state of \<open>c\<close>. The queries a call of \<^verbatim>\<open>deposit\<close> issues are
  the log of running it on \<open>spy c\<close> from an empty log.
\<close>

datatype 'e event =
  ReadAddress readContract_params "'e + address"
  | ReadUint256 readContract_params "'e + 256 word"
  | EstimateGas estimateGas_params "'e + int"

definition spy :: "('s, 'e) PublicClient \<Rightarrow> ('s \<times> 'e event list, 'e) PublicClient" where
  "spy c =
     \<lparr> readContract_address = (\<lambda>q (s, log).
         case readContract_address c q s of
           (r, s') \<Rightarrow> (r, (s', log @ [ReadAddress q r]))),
       readContract_uint256 = (\<lambda>q (s, log).
         case readContract_uint256 c q s of
           (r, s') \<Rightarrow> (r, (s', log @ [ReadUint256 q r]))),
       estimateGas = (\<lambda>q (s, log).
         case estimateGas c q s of
           (r, s') \<Rightarrow> (r, (s', log @ [EstimateGas q r]))) \<rparr>"

text \<open>The request of an event, and the failure it ended with, if it did.\<close>

datatype query = ReadContract readContract_params | EstimateGasOf estimateGas_params

fun query_of :: "'e event \<Rightarrow> query" where
  "query_of (ReadAddress q r) = ReadContract q"
| "query_of (ReadUint256 q r) = ReadContract q"
| "query_of (EstimateGas q r) = EstimateGasOf q"

fun failure :: "'e event \<Rightarrow> 'e option" where
  "failure (ReadAddress q (Inl e)) = Some e"
| "failure (ReadUint256 q (Inl e)) = Some e"
| "failure (EstimateGas q (Inl e)) = Some e"
| "failure _ = None"

text \<open>
  An interaction lets the pipeline go on when it returned a value and, for the three
  numeric reads, the value is not below the requested amount (the three guards of the
  source compare the same way).
\<close>

fun lets_through :: "int \<Rightarrow> 'e event \<Rightarrow> bool" where
  "lets_through amt (ReadAddress q r) = (case r of Inl e \<Rightarrow> False | Inr a \<Rightarrow> True)"
| "lets_through amt (ReadUint256 q r) = (case r of Inl e \<Rightarrow> False | Inr v \<Rightarrow> amt \<le> uint v)"
| "lets_through amt (EstimateGas q r) = (case r of Inl e \<Rightarrow> False | Inr g \<Rightarrow> True)"

text \<open>
  The queries of a complete run, in the order of the source: the four reads, then the
  gas estimation for the encoded call (there is none to estimate when the call does not
  encode). \<open>a\<close> is the asset address the first read returned; \<open>asset_read\<close> takes
  it from a log.
\<close>

definition planned_queries ::
  "(string \<Rightarrow> 256 word) \<Rightarrow> DepositParams \<Rightarrow> address \<Rightarrow> query list" where
  "planned_queries keccak256 p a =
     [ReadContract (asset_call p), ReadContract (balanceOf_call p a),
      ReadContract (allowance_call p a), ReadContract (maxDeposit_call p)]
     @ (case deposit_calldata keccak256 p of
          Inl err \<Rightarrow> []
        | Inr d \<Rightarrow> [EstimateGasOf (estimateGas_call p d)])"

fun asset_read :: "'e event list \<Rightarrow> address" where
  "asset_read (ReadAddress q (Inr a) # evs) = a"
| "asset_read evs = []"

text \<open>Reading a big-endian hex string back as a number.\<close>

definition hex_digit_value :: "char \<Rightarrow> nat" where
  "hex_digit_value c = length (takeWhile (\<lambda>d. d \<noteq> c) ''0123456789abcdef'')"

definition hex_to_nat :: "string \<Rightarrow> nat" where
  "hex_to_nat cs = foldl (\<lambda>acc c. 16 * acc + hex_digit_value c) 0 cs"

subsection \<open>A test double\<close>

text \<open>
  A client over a fixed chain: the vault's asset is \<open>a\<close>, the wallet holds \<open>b\<close>, has
  approved \<open>al\<close>, and the vault's limit is \<open>m\<close>. Its state is the next gas estimate:
  each estimation returns it and raises it by one; a negative state makes the
  simulation revert. The hash maps the signature of \<^verbatim>\<open>deposit\<close> to a word that starts
  with the bytes 6e553f65.
\<close>

definition stub_client ::
  "address \<Rightarrow> 256 word \<Rightarrow> 256 word \<Rightarrow> 256 word \<Rightarrow> (int, string) PublicClient" where
  "stub_client a b al m =
     \<lparr> readContract_address = (\<lambda>q s. (Inr a, s)),
       readContract_uint256 = (\<lambda>q s.
         (if rc_functionName q = ''balanceOf'' then Inr b
          else if rc_functionName q = ''allowance'' then Inr al
          else if rc_functionName q = ''maxDeposit'' then Inr m
          else Inl ''function not found'', s)),
       estimateGas = (\<lambda>q s.
         if s < 0 then (Inl ''execution reverted'', s) else (Inr s, s + 1)) \<rparr>"

definition stub_keccak256 :: "string \<Rightarrow> 256 word" where
  "stub_keccak256 sig =
     (if sig = ''deposit(uint256,address)'' then push_bit 224 0x6e553f65 else 0)"

definition test_wallet :: address where
  "test_wallet = ''0xf39Fd6e51aad88F6F4ce6aB8827279cffFb92266''"

definition test_vault :: address where
  "test_vault = ''0xe7f1725e7734ce288f8367e1bb143e90bb3f0512''"

definition test_token :: address where
  "test_token = ''0x5fbdb2315678afecb367f032d93f642f64180aa3''"

definition test_request :: "int \<Rightarrow> DepositParams" where
  "test_request amt = \<lparr> wallet = test_wallet, vault = test_vault, amount = amt \<rparr>"

definition test_calldata :: "nat \<Rightarrow> hex" where
  "test_calldata amt =
     ''0x6e553f65'' @ hex_fixed 64 amt
       @ ''000000000000000000000000f39fd6e51aad88f6f4ce6ab8827279cfffb92266''"

definition test_transaction :: "nat \<Rightarrow> int \<Rightarrow> Transaction" where
  "test_transaction amt g =
     \<lparr> tx_data = test_calldata amt, tx_from = test_wallet, tx_to = test_vault,
       tx_value = 0, tx_gas = g \<rparr>"


text \<open>The four reads of a run on the test double, as its transcript records them.\<close>

definition test_reads ::
  "int \<Rightarrow> 256 word \<Rightarrow> 256 word \<Rightarrow> 256 word \<Rightarrow> string event list" where
  "test_reads amt b al m =
     [ReadAddress (asset_call (test_request amt)) (Inr test_token),
      ReadUint256 (balanceOf_call (test_request amt) test_token) (Inr b),
      ReadUint256 (allowance_call (test_request amt) test_token) (Inr al),
      ReadUint256 (maxDeposit_call (test_request amt)) (Inr m)]"

section \<open>The pipeline, stage by stage\<close>

lemmas call_defs =
  asset_call_def balanceOf_call_def allowance_call_def maxDeposit_call_def
  deposit_calldata_def estimateGas_call_def

lemma deposit_unfold:
  "deposit k c p s0 =
    (case readContract_address c (asset_call p) s0 of
       (Inl e, s1) \<Rightarrow> (Inl (ClientError e), s1)
     | (Inr a, s1) \<Rightarrow>
    (case readContract_uint256 c (balanceOf_call p a) s1 of
       (Inl e, s2) \<Rightarrow> (Inl (ClientError e), s2)
     | (Inr balance, s2) \<Rightarrow>
       if uint balance < amount p then (Inl (Thrown NotEnoughBalanceError), s2) else
    (case readContract_uint256 c (allowance_call p a) s2 of
       (Inl e, s3) \<Rightarrow> (Inl (ClientError e), s3)
     | (Inr allowance, s3) \<Rightarrow>
       if uint allowance < amount p then (Inl (Thrown MissingAllowanceError), s3) else
    (case readContract_uint256 c (maxDeposit_call p) s3 of
       (Inl e, s4) \<Rightarrow> (Inl (ClientError e), s4)
     | (Inr maxDeposit, s4) \<Rightarrow>
       if uint maxDeposit < amount p
       then (Inl (Thrown AmountExceedsMaxDepositError), s4) else
    (case deposit_calldata k p of
       Inl err \<Rightarrow> (Inl (EncodeError err), s4)
     | Inr d \<Rightarrow>
    (case estimateGas c (estimateGas_call p d) s4 of
       (Inl e, s5) \<Rightarrow> (Inl (ClientError e), s5)
     | (Inr gas, s5) \<Rightarrow>
        (Inr \<lparr> tx_data = d, tx_from = wallet p, tx_to = vault p, tx_value = 0,
                tx_gas = gas \<rparr>, s5)))))))"
  by (simp add: deposit_def await_def reject_def resolve_def call_defs not_less
        split: prod.splits sum.splits)

lemma deposit_cases
  [case_names asset_rejects balance_rejects balance_low allowance_rejects allowance_low
     maxDeposit_rejects maxDeposit_low encode_rejects gas_rejects resolved]:
  obtains
    e s1 where
      "readContract_address c (asset_call p) s0 = (Inl e, s1)"
      "deposit k c p s0 = (Inl (ClientError e), s1)"
  | a s1 e s2 where
      "readContract_address c (asset_call p) s0 = (Inr a, s1)"
      "readContract_uint256 c (balanceOf_call p a) s1 = (Inl e, s2)"
      "deposit k c p s0 = (Inl (ClientError e), s2)"
  | a s1 b s2 where
      "readContract_address c (asset_call p) s0 = (Inr a, s1)"
      "readContract_uint256 c (balanceOf_call p a) s1 = (Inr b, s2)"
      "uint b < amount p"
      "deposit k c p s0 = (Inl (Thrown NotEnoughBalanceError), s2)"
  | a s1 b s2 e s3 where
      "readContract_address c (asset_call p) s0 = (Inr a, s1)"
      "readContract_uint256 c (balanceOf_call p a) s1 = (Inr b, s2)"
      "amount p \<le> uint b"
      "readContract_uint256 c (allowance_call p a) s2 = (Inl e, s3)"
      "deposit k c p s0 = (Inl (ClientError e), s3)"
  | a s1 b s2 al s3 where
      "readContract_address c (asset_call p) s0 = (Inr a, s1)"
      "readContract_uint256 c (balanceOf_call p a) s1 = (Inr b, s2)"
      "amount p \<le> uint b"
      "readContract_uint256 c (allowance_call p a) s2 = (Inr al, s3)"
      "uint al < amount p"
      "deposit k c p s0 = (Inl (Thrown MissingAllowanceError), s3)"
  | a s1 b s2 al s3 e s4 where
      "readContract_address c (asset_call p) s0 = (Inr a, s1)"
      "readContract_uint256 c (balanceOf_call p a) s1 = (Inr b, s2)"
      "amount p \<le> uint b"
      "readContract_uint256 c (allowance_call p a) s2 = (Inr al, s3)"
      "amount p \<le> uint al"
      "readContract_uint256 c (maxDeposit_call p) s3 = (Inl e, s4)"
      "deposit k c p s0 = (Inl (ClientError e), s4)"
  | a s1 b s2 al s3 m s4 where
      "readContract_address c (asset_call p) s0 = (Inr a, s1)"
      "readContract_uint256 c (balanceOf_call p a) s1 = (Inr b, s2)"
      "amount p \<le> uint b"
      "readContract_uint256 c (allowance_call p a) s2 = (Inr al, s3)"
      "amount p \<le> uint al"
      "readContract_uint256 c (maxDeposit_call p) s3 = (Inr m, s4)"
      "uint m < amount p"
      "deposit k c p s0 = (Inl (Thrown AmountExceedsMaxDepositError), s4)"
  | a s1 b s2 al s3 m s4 err where
      "readContract_address c (asset_call p) s0 = (Inr a, s1)"
      "readContract_uint256 c (balanceOf_call p a) s1 = (Inr b, s2)"
      "amount p \<le> uint b"
      "readContract_uint256 c (allowance_call p a) s2 = (Inr al, s3)"
      "amount p \<le> uint al"
      "readContract_uint256 c (maxDeposit_call p) s3 = (Inr m, s4)"
      "amount p \<le> uint m"
      "deposit_calldata k p = Inl err"
      "deposit k c p s0 = (Inl (EncodeError err), s4)"
  | a s1 b s2 al s3 m s4 d e s5 where
      "readContract_address c (asset_call p) s0 = (Inr a, s1)"
      "readContract_uint256 c (balanceOf_call p a) s1 = (Inr b, s2)"
      "amount p \<le> uint b"
      "readContract_uint256 c (allowance_call p a) s2 = (Inr al, s3)"
      "amount p \<le> uint al"
      "readContract_uint256 c (maxDeposit_call p) s3 = (Inr m, s4)"
      "amount p \<le> uint m"
      "deposit_calldata k p = Inr d"
      "estimateGas c (estimateGas_call p d) s4 = (Inl e, s5)"
      "deposit k c p s0 = (Inl (ClientError e), s5)"
  | a s1 b s2 al s3 m s4 d g s5 where
      "readContract_address c (asset_call p) s0 = (Inr a, s1)"
      "readContract_uint256 c (balanceOf_call p a) s1 = (Inr b, s2)"
      "amount p \<le> uint b"
      "readContract_uint256 c (allowance_call p a) s2 = (Inr al, s3)"
      "amount p \<le> uint al"
      "readContract_uint256 c (maxDeposit_call p) s3 = (Inr m, s4)"
      "amount p \<le> uint m"
      "deposit_calldata k p = Inr d"
      "estimateGas c (estimateGas_call p d) s4 = (Inr g, s5)"
      "deposit k c p s0 =
         (Inr \<lparr> tx_data = d, tx_from = wallet p, tx_to = vault p, tx_value = 0,
                 tx_gas = g \<rparr>, s5)"
proof -
  obtain r1 s1 where c1: "readContract_address c (asset_call p) s0 = (r1, s1)"
    by (cases "readContract_address c (asset_call p) s0")
  show thesis
  proof (cases r1)
    case (Inl e)
    with c1 show thesis using that(1) by (simp add: deposit_unfold)
  next
    case a: (Inr a)
    obtain r2 s2 where c2: "readContract_uint256 c (balanceOf_call p a) s1 = (r2, s2)"
      by (cases "readContract_uint256 c (balanceOf_call p a) s1")
    show thesis
    proof (cases r2)
      case (Inl e)
      with c1 a c2 show thesis using that(2) by (simp add: deposit_unfold)
    next
      case b: (Inr b)
      show thesis
      proof (cases "uint b < amount p")
        case True
        with c1 a c2 b show thesis using that(3) by (simp add: deposit_unfold)
      next
        case g1: False
        obtain r3 s3 where c3: "readContract_uint256 c (allowance_call p a) s2 = (r3, s3)"
          by (cases "readContract_uint256 c (allowance_call p a) s2")
        show thesis
        proof (cases r3)
          case (Inl e)
          with c1 a c2 b g1 c3 show thesis using that(4) by (simp add: deposit_unfold)
        next
          case al: (Inr al)
          show thesis
          proof (cases "uint al < amount p")
            case True
            with c1 a c2 b g1 c3 al show thesis using that(5) by (simp add: deposit_unfold)
          next
            case g2: False
            obtain r4 s4 where c4: "readContract_uint256 c (maxDeposit_call p) s3 = (r4, s4)"
              by (cases "readContract_uint256 c (maxDeposit_call p) s3")
            show thesis
            proof (cases r4)
              case (Inl e)
              with c1 a c2 b g1 c3 al g2 c4 show thesis using that(6)
                by (simp add: deposit_unfold)
            next
              case m: (Inr m)
              show thesis
              proof (cases "uint m < amount p")
                case True
                with c1 a c2 b g1 c3 al g2 c4 m show thesis using that(7)
                  by (simp add: deposit_unfold)
              next
                case g3: False
                show thesis
                proof (cases "deposit_calldata k p")
                  case (Inl err)
                  with c1 a c2 b g1 c3 al g2 c4 m g3 show thesis using that(8)
                    by (simp add: deposit_unfold)
                next
                  case d: (Inr d)
                  obtain r5 s5 where c5: "estimateGas c (estimateGas_call p d) s4 = (r5, s5)"
                    by (cases "estimateGas c (estimateGas_call p d) s4")
                  show thesis
                  proof (cases r5)
                    case (Inl e)
                    with c1 a c2 b g1 c3 al g2 c4 m g3 d c5 show thesis using that(9)
                      by (simp add: deposit_unfold)
                  next
                    case (Inr g)
                    with c1 a c2 b g1 c3 al g2 c4 m g3 d c5 show thesis using that(10)
                      by (simp add: deposit_unfold)
                  qed
                qed
              qed
            qed
          qed
        qed
      qed
    qed
  qed
qed

lemma spy_simps [simp]:
  "readContract_address (spy c) q (s, log) =
     (fst (readContract_address c q s),
      snd (readContract_address c q s),
      log @ [ReadAddress q (fst (readContract_address c q s))])"
  "readContract_uint256 (spy c) q (s, log) =
     (fst (readContract_uint256 c q s),
      snd (readContract_uint256 c q s),
      log @ [ReadUint256 q (fst (readContract_uint256 c q s))])"
  "estimateGas (spy c) g (s, log) =
     (fst (estimateGas c g s),
      snd (estimateGas c g s),
      log @ [EstimateGas g (fst (estimateGas c g s))])"
  by (simp_all add: spy_def split: prod.splits)

lemma spy_result: "fst (deposit k (spy c) p (s, log)) = fst (deposit k c p s)"
  by (cases rule: deposit_cases [of c p s k]) (simp_all add: deposit_unfold)

lemma spy_state: "fst (snd (deposit k (spy c) p (s, log))) = snd (deposit k c p s)"
  by (cases rule: deposit_cases [of c p s k]) (simp_all add: deposit_unfold)

subsection \<open>The encoder\<close>

lemma length_hex_fixed [simp]: "length (hex_fixed n v) = n"
  by (induction n arbitrary: v) simp_all

lemma hex_fixed_numeral:
  "hex_fixed (numeral n) v = hex_fixed (pred_numeral n) (v div 16) @ [hex_digit (v mod 16)]"
proof -
  have "hex_fixed (Suc (pred_numeral n)) v =
          hex_fixed (pred_numeral n) (v div 16) @ [hex_digit (v mod 16)]"
    by (rule hex_fixed.simps(2))
  then show ?thesis
    by (simp only: numeral_eq_Suc [symmetric])
qed

lemma lt16_cases:
  "d < (16::nat) \<Longrightarrow>
     d = 0 \<or> d = 1 \<or> d = 2 \<or> d = 3 \<or> d = 4 \<or> d = 5 \<or> d = 6 \<or> d = 7
     \<or> d = 8 \<or> d = 9 \<or> d = 10 \<or> d = 11 \<or> d = 12 \<or> d = 13 \<or> d = 14 \<or> d = 15"
  by arith

lemma hex_digit_value_hex_digit: "d < 16 \<Longrightarrow> hex_digit_value (hex_digit d) = d"
  by (drule lt16_cases) (auto simp: hex_digit_def hex_digit_value_def)

lemma is_hex_char_hex_digit: "is_hex_char (hex_digit d)"
proof -
  have "d mod 16 < 16" by simp
  from lt16_cases [OF this] show ?thesis
    by (auto simp: hex_digit_def is_hex_char_def)
qed

lemma hex_fixed_is_hex: "list_all is_hex_char (hex_fixed n v)"
  by (induction n arbitrary: v) (simp_all add: is_hex_char_hex_digit)

lemma hex_to_nat_snoc: "hex_to_nat (cs @ [c]) = 16 * hex_to_nat cs + hex_digit_value c"
  by (simp add: hex_to_nat_def)

lemma hex_to_nat_hex_fixed: "hex_to_nat (hex_fixed n v) = v mod 16 ^ n"
proof (induction n arbitrary: v)
  case 0
  show ?case by (simp add: hex_to_nat_def)
next
  case (Suc n)
  have "hex_to_nat (hex_fixed (Suc n) v) = 16 * ((v div 16) mod 16 ^ n) + v mod 16"
    by (simp add: hex_to_nat_snoc Suc hex_digit_value_hex_digit)
  also have "\<dots> = v mod 16 ^ Suc n"
    by (simp add: mod_mult2_eq)
  finally show ?case .
qed

lemma toLowerCase_hex:
  "\<forall>c \<in> set ''0123456789abcdefABCDEF''. toLowerCase c \<in> set ''0123456789abcdef''"
  by (simp add: toLowerCase_def)

lemma is_hex_char_toLowerCase: "is_hex_char c \<Longrightarrow> is_hex_char (toLowerCase c)"
proof -
  assume "is_hex_char c"
  then have "toLowerCase c \<in> set ''0123456789abcdef''"
    using toLowerCase_hex unfolding is_hex_char_def by blast
  then show ?thesis
    by (auto simp: is_hex_char_def)
qed

lemma deposit_calldata_eq:
  "deposit_calldata k p =
     (if 0 \<le> amount p \<and> amount p < 2 ^ 256
      then (if isAddress (wallet p)
            then Inr (''0x'' @ toFunctionSelector k ''deposit(uint256,address)''
                      @ hex_fixed 64 (nat (amount p))
                      @ replicate 24 (CHR ''0'') @ map toLowerCase (drop 2 (wallet p)))
            else Inl InvalidAddress)
      else Inl IntegerOutOfRange)"
  by (simp add: deposit_calldata_def encodeFunctionData_def ERC4626_ABI_def
        formatAbiItem_def)

subsection \<open>The test double, evaluated\<close>

lemma stub_simps [simp]:
  "readContract_address (stub_client a b al m) q s = (Inr a, s)"
  "readContract_uint256 (stub_client a b al m) (balanceOf_call p x) s = (Inr b, s)"
  "readContract_uint256 (stub_client a b al m) (allowance_call p x) s = (Inr al, s)"
  "readContract_uint256 (stub_client a b al m) (maxDeposit_call p) s = (Inr m, s)"
  "estimateGas (stub_client a b al m) g s =
     (if s < 0 then (Inl ''execution reverted'', s) else (Inr s, s + 1))"
  by (simp_all add: stub_client_def call_defs)

lemma test_selector:
  "toFunctionSelector stub_keccak256 ''deposit(uint256,address)'' = ''6e553f65''"
  by (simp add: toFunctionSelector_def stub_keccak256_def drop_bit_push_bit
        hex_fixed_numeral hex_digit_def)

lemma test_address: "isAddress test_wallet"
  and test_lower: "map toLowerCase (drop 2 test_wallet) = ''f39fd6e51aad88f6f4ce6ab8827279cfffb92266''"
  by (simp_all add: test_wallet_def isAddress_def is_hex_char_def toLowerCase_def)

lemma zeros24: "replicate 24 (CHR ''0'') = ''000000000000000000000000''"
  by code_simp

lemma test_calldata_encodes: "0 \<le> amt \<Longrightarrow> amt < 2 ^ 256 \<Longrightarrow>
  deposit_calldata stub_keccak256 (test_request amt) = Inr (test_calldata (nat amt))"
  by (simp add: deposit_calldata_eq test_request_def test_selector test_address test_lower
        test_calldata_def zeros24)

section \<open>The three guards\<close>

text \<open>
  C1. Once the asset and the balance have been read: if the balance is strictly below
  the amount, \<^verbatim>\<open>deposit\<close> rejects with \<^verbatim>\<open>NotEnoughBalanceError\<close>, whose message is
  "Not enough balance", and the only queries issued are \<^verbatim>\<open>asset\<close> and
  \<^verbatim>\<open>balanceOf\<close> (no allowance or max-deposit query). If the balance is at least the
  amount, equality included, that error is not raised and the next query issued is the
  allowance read.
\<close>

theorem balance_guard:
  assumes "readContract_address c (asset_call p) s0 = (Inr a, s1)"
    and "readContract_uint256 c (balanceOf_call p a) s1 = (Inr b, s2)"
  shows "(uint b < amount p \<longrightarrow>
            deposit k c p s0 = (Inl (Thrown NotEnoughBalanceError), s2)
          \<and> message NotEnoughBalanceError = ''Not enough balance''
          \<and> snd (snd (deposit k (spy c) p (s0, []))) =
               [ReadAddress (asset_call p) (Inr a), ReadUint256 (balanceOf_call p a) (Inr b)])
       \<and> (amount p \<le> uint b \<longrightarrow>
            fst (deposit k c p s0) \<noteq> Inl (Thrown NotEnoughBalanceError)
          \<and> take 3 (snd (snd (deposit k (spy c) p (s0, [])))) =
               [ReadAddress (asset_call p) (Inr a), ReadUint256 (balanceOf_call p a) (Inr b),
                ReadUint256 (allowance_call p a)
                  (fst (readContract_uint256 c (allowance_call p a) s2))])"
proof (intro conjI impI)
  assume low: "uint b < amount p"
  from assms low show "deposit k c p s0 = (Inl (Thrown NotEnoughBalanceError), s2)"
    by (simp add: deposit_unfold)
  show "message NotEnoughBalanceError = ''Not enough balance''" by simp
  from assms low show "snd (snd (deposit k (spy c) p (s0, []))) =
               [ReadAddress (asset_call p) (Inr a), ReadUint256 (balanceOf_call p a) (Inr b)]"
    by (simp add: deposit_unfold)
next
  assume ok: "amount p \<le> uint b"
  from assms ok show "fst (deposit k c p s0) \<noteq> Inl (Thrown NotEnoughBalanceError)"
    by (cases rule: deposit_cases [of c p s0 k]) simp_all
  from assms ok show "take 3 (snd (snd (deposit k (spy c) p (s0, [])))) =
               [ReadAddress (asset_call p) (Inr a), ReadUint256 (balanceOf_call p a) (Inr b),
                ReadUint256 (allowance_call p a)
                  (fst (readContract_uint256 c (allowance_call p a) s2))]"
    by (cases rule: deposit_cases [of "spy c" p "(s0, [])" k]) auto
qed

theorem balance_guard_witness:
  "readContract_address (stub_client test_token 0 0 0) (asset_call (test_request 1)) 0
     = (Inr test_token, 0)
   \<and> readContract_uint256 (stub_client test_token 0 0 0)
         (balanceOf_call (test_request 1) test_token) 0 = (Inr 0, 0)
   \<and> uint (0 :: 256 word) < amount (test_request 1)
   \<and> deposit stub_keccak256 (stub_client test_token 0 0 0) (test_request 1) 0
       = (Inl (Thrown NotEnoughBalanceError), 0)
   \<and> snd (snd (deposit stub_keccak256 (spy (stub_client test_token 0 0 0)) (test_request 1)
                  (0, [])))
       = [ReadAddress (asset_call (test_request 1)) (Inr test_token),
          ReadUint256 (balanceOf_call (test_request 1) test_token) (Inr 0)]
   \<and> readContract_uint256 (stub_client test_token 100 100 100)
         (balanceOf_call (test_request 100) test_token) 0 = (Inr 100, 0)
   \<and> amount (test_request 100) \<le> uint (100 :: 256 word)
   \<and> fst (deposit stub_keccak256 (stub_client test_token 100 100 100) (test_request 100) 0)
       \<noteq> Inl (Thrown NotEnoughBalanceError)
   \<and> take 3 (snd (snd (deposit stub_keccak256 (spy (stub_client test_token 100 100 100))
                          (test_request 100) (0, []))))
       = [ReadAddress (asset_call (test_request 100)) (Inr test_token),
          ReadUint256 (balanceOf_call (test_request 100) test_token) (Inr 100),
          ReadUint256 (allowance_call (test_request 100) test_token) (Inr 100)]"
  using
    balance_guard [of "stub_client test_token 0 0 0" "test_request 1" 0 test_token 0 0 0
      stub_keccak256]
    balance_guard [of "stub_client test_token 100 100 100" "test_request 100" 0 test_token 0
      100 0 stub_keccak256]
  by (simp add: test_request_def)

text \<open>
  C2. With a sufficient balance, once the allowance has been read: if it is strictly
  below the amount, \<^verbatim>\<open>deposit\<close> rejects with \<^verbatim>\<open>MissingAllowanceError\<close>, whose
  message is "Not enough allowance", after exactly three queries. If the allowance is at
  least the amount, equality included, that error is not raised and the next query
  issued is the max-deposit read.
\<close>

theorem allowance_guard:
  assumes "readContract_address c (asset_call p) s0 = (Inr a, s1)"
    and "readContract_uint256 c (balanceOf_call p a) s1 = (Inr b, s2)"
    and "amount p \<le> uint b"
    and "readContract_uint256 c (allowance_call p a) s2 = (Inr al, s3)"
  shows "(uint al < amount p \<longrightarrow>
            deposit k c p s0 = (Inl (Thrown MissingAllowanceError), s3)
          \<and> message MissingAllowanceError = ''Not enough allowance''
          \<and> snd (snd (deposit k (spy c) p (s0, []))) =
               [ReadAddress (asset_call p) (Inr a), ReadUint256 (balanceOf_call p a) (Inr b),
                ReadUint256 (allowance_call p a) (Inr al)])
       \<and> (amount p \<le> uint al \<longrightarrow>
            fst (deposit k c p s0) \<noteq> Inl (Thrown MissingAllowanceError)
          \<and> take 4 (snd (snd (deposit k (spy c) p (s0, [])))) =
               [ReadAddress (asset_call p) (Inr a), ReadUint256 (balanceOf_call p a) (Inr b),
                ReadUint256 (allowance_call p a) (Inr al),
                ReadUint256 (maxDeposit_call p)
                  (fst (readContract_uint256 c (maxDeposit_call p) s3))])"
proof (intro conjI impI)
  assume low: "uint al < amount p"
  from assms low show "deposit k c p s0 = (Inl (Thrown MissingAllowanceError), s3)"
    by (simp add: deposit_unfold)
  show "message MissingAllowanceError = ''Not enough allowance''" by simp
  from assms low show "snd (snd (deposit k (spy c) p (s0, []))) =
               [ReadAddress (asset_call p) (Inr a), ReadUint256 (balanceOf_call p a) (Inr b),
                ReadUint256 (allowance_call p a) (Inr al)]"
    by (simp add: deposit_unfold)
next
  assume ok: "amount p \<le> uint al"
  from assms ok show "fst (deposit k c p s0) \<noteq> Inl (Thrown MissingAllowanceError)"
    by (cases rule: deposit_cases [of c p s0 k]) simp_all
  from assms ok show "take 4 (snd (snd (deposit k (spy c) p (s0, [])))) =
               [ReadAddress (asset_call p) (Inr a), ReadUint256 (balanceOf_call p a) (Inr b),
                ReadUint256 (allowance_call p a) (Inr al),
                ReadUint256 (maxDeposit_call p)
                  (fst (readContract_uint256 c (maxDeposit_call p) s3))]"
    by (cases rule: deposit_cases [of "spy c" p "(s0, [])" k]) auto
qed

theorem allowance_guard_witness:
  "readContract_address (stub_client test_token 1000 10 1000) (asset_call (test_request 100)) 0
     = (Inr test_token, 0)
   \<and> readContract_uint256 (stub_client test_token 1000 10 1000)
         (balanceOf_call (test_request 100) test_token) 0 = (Inr 1000, 0)
   \<and> amount (test_request 100) \<le> uint (1000 :: 256 word)
   \<and> readContract_uint256 (stub_client test_token 1000 10 1000)
         (allowance_call (test_request 100) test_token) 0 = (Inr 10, 0)
   \<and> uint (10 :: 256 word) < amount (test_request 100)
   \<and> deposit stub_keccak256 (stub_client test_token 1000 10 1000) (test_request 100) 0
       = (Inl (Thrown MissingAllowanceError), 0)
   \<and> snd (snd (deposit stub_keccak256 (spy (stub_client test_token 1000 10 1000))
                  (test_request 100) (0, [])))
       = [ReadAddress (asset_call (test_request 100)) (Inr test_token),
          ReadUint256 (balanceOf_call (test_request 100) test_token) (Inr 1000),
          ReadUint256 (allowance_call (test_request 100) test_token) (Inr 10)]
   \<and> readContract_uint256 (stub_client test_token 100 100 100)
         (allowance_call (test_request 100) test_token) 0 = (Inr 100, 0)
   \<and> amount (test_request 100) \<le> uint (100 :: 256 word)
   \<and> fst (deposit stub_keccak256 (stub_client test_token 100 100 100) (test_request 100) 0)
       \<noteq> Inl (Thrown MissingAllowanceError)
   \<and> take 4 (snd (snd (deposit stub_keccak256 (spy (stub_client test_token 100 100 100))
                          (test_request 100) (0, []))))
       = [ReadAddress (asset_call (test_request 100)) (Inr test_token),
          ReadUint256 (balanceOf_call (test_request 100) test_token) (Inr 100),
          ReadUint256 (allowance_call (test_request 100) test_token) (Inr 100),
          ReadUint256 (maxDeposit_call (test_request 100)) (Inr 100)]"
  using
    allowance_guard [where c = "stub_client test_token 1000 10 1000"
      and p = "test_request 100" and ?s0.0 = 0 and a = test_token and ?s1.0 = 0
      and b = 1000 and ?s2.0 = 0 and al = 10 and ?s3.0 = 0 and k = stub_keccak256]
    allowance_guard [where c = "stub_client test_token 100 100 100"
      and p = "test_request 100" and ?s0.0 = 0 and a = test_token and ?s1.0 = 0
      and b = 100 and ?s2.0 = 0 and al = 100 and ?s3.0 = 0 and k = stub_keccak256]
  by (simp add: test_request_def)

text \<open>
  C3. With a sufficient balance and allowance, once \<^verbatim>\<open>maxDeposit(wallet)\<close> has been
  read: if the amount strictly exceeds it, \<^verbatim>\<open>deposit\<close> rejects with
  \<^verbatim>\<open>AmountExceedsMaxDepositError\<close>, whose message is "Amount exceeds max deposit",
  after exactly four queries. If the amount is at most the limit, equality included,
  none of the three errors is raised, and when the call data encodes the fifth query is
  the gas estimation.
\<close>

theorem maxDeposit_guard:
  assumes "readContract_address c (asset_call p) s0 = (Inr a, s1)"
    and "readContract_uint256 c (balanceOf_call p a) s1 = (Inr b, s2)"
    and "amount p \<le> uint b"
    and "readContract_uint256 c (allowance_call p a) s2 = (Inr al, s3)"
    and "amount p \<le> uint al"
    and "readContract_uint256 c (maxDeposit_call p) s3 = (Inr m, s4)"
  shows "(amount p > uint m \<longrightarrow>
            deposit k c p s0 = (Inl (Thrown AmountExceedsMaxDepositError), s4)
          \<and> message AmountExceedsMaxDepositError = ''Amount exceeds max deposit''
          \<and> snd (snd (deposit k (spy c) p (s0, []))) =
               [ReadAddress (asset_call p) (Inr a), ReadUint256 (balanceOf_call p a) (Inr b),
                ReadUint256 (allowance_call p a) (Inr al),
                ReadUint256 (maxDeposit_call p) (Inr m)])
       \<and> (amount p \<le> uint m \<longrightarrow>
            (\<forall>x. fst (deposit k c p s0) \<noteq> Inl (Thrown x))
          \<and> (\<forall>d. deposit_calldata k p = Inr d \<longrightarrow>
                snd (snd (deposit k (spy c) p (s0, []))) =
                  [ReadAddress (asset_call p) (Inr a),
                   ReadUint256 (balanceOf_call p a) (Inr b),
                   ReadUint256 (allowance_call p a) (Inr al),
                   ReadUint256 (maxDeposit_call p) (Inr m),
                   EstimateGas (estimateGas_call p d)
                     (fst (estimateGas c (estimateGas_call p d) s4))]))"
proof (intro conjI impI allI)
  assume low: "amount p > uint m"
  from assms low show "deposit k c p s0 = (Inl (Thrown AmountExceedsMaxDepositError), s4)"
    by (simp add: deposit_unfold)
  show "message AmountExceedsMaxDepositError = ''Amount exceeds max deposit''" by simp
  from assms low show "snd (snd (deposit k (spy c) p (s0, []))) =
               [ReadAddress (asset_call p) (Inr a), ReadUint256 (balanceOf_call p a) (Inr b),
                ReadUint256 (allowance_call p a) (Inr al),
                ReadUint256 (maxDeposit_call p) (Inr m)]"
    by (simp add: deposit_unfold)
next
  fix x
  assume ok: "amount p \<le> uint m"
  from assms ok show "fst (deposit k c p s0) \<noteq> Inl (Thrown x)"
    by (cases rule: deposit_cases [of c p s0 k]) simp_all
next
  fix d
  assume ok: "amount p \<le> uint m" and d: "deposit_calldata k p = Inr d"
  from assms ok d show "snd (snd (deposit k (spy c) p (s0, []))) =
                  [ReadAddress (asset_call p) (Inr a),
                   ReadUint256 (balanceOf_call p a) (Inr b),
                   ReadUint256 (allowance_call p a) (Inr al),
                   ReadUint256 (maxDeposit_call p) (Inr m),
                   EstimateGas (estimateGas_call p d)
                     (fst (estimateGas c (estimateGas_call p d) s4))]"
    by (cases rule: deposit_cases [of "spy c" p "(s0, [])" k]) auto
qed

theorem maxDeposit_guard_witness:
  "readContract_address (stub_client test_token 1000 1000 50) (asset_call (test_request 100)) 0
     = (Inr test_token, 0)
   \<and> readContract_uint256 (stub_client test_token 1000 1000 50)
         (balanceOf_call (test_request 100) test_token) 0 = (Inr 1000, 0)
   \<and> amount (test_request 100) \<le> uint (1000 :: 256 word)
   \<and> readContract_uint256 (stub_client test_token 1000 1000 50)
         (allowance_call (test_request 100) test_token) 0 = (Inr 1000, 0)
   \<and> readContract_uint256 (stub_client test_token 1000 1000 50)
         (maxDeposit_call (test_request 100)) 0 = (Inr 50, 0)
   \<and> amount (test_request 100) > uint (50 :: 256 word)
   \<and> deposit stub_keccak256 (stub_client test_token 1000 1000 50) (test_request 100) 0
       = (Inl (Thrown AmountExceedsMaxDepositError), 0)
   \<and> snd (snd (deposit stub_keccak256 (spy (stub_client test_token 1000 1000 50))
                  (test_request 100) (0, [])))
       = [ReadAddress (asset_call (test_request 100)) (Inr test_token),
          ReadUint256 (balanceOf_call (test_request 100) test_token) (Inr 1000),
          ReadUint256 (allowance_call (test_request 100) test_token) (Inr 1000),
          ReadUint256 (maxDeposit_call (test_request 100)) (Inr 50)]
   \<and> readContract_uint256 (stub_client test_token 100 100 100)
         (maxDeposit_call (test_request 100)) 0 = (Inr 100, 0)
   \<and> amount (test_request 100) \<le> uint (100 :: 256 word)
   \<and> fst (deposit stub_keccak256 (stub_client test_token 100 100 100) (test_request 100) 0)
       \<noteq> Inl (Thrown AmountExceedsMaxDepositError)
   \<and> deposit_calldata stub_keccak256 (test_request 100) = Inr (test_calldata 100)
   \<and> snd (snd (deposit stub_keccak256 (spy (stub_client test_token 100 100 100))
                  (test_request 100) (0, [])))
       = [ReadAddress (asset_call (test_request 100)) (Inr test_token),
          ReadUint256 (balanceOf_call (test_request 100) test_token) (Inr 100),
          ReadUint256 (allowance_call (test_request 100) test_token) (Inr 100),
          ReadUint256 (maxDeposit_call (test_request 100)) (Inr 100),
          EstimateGas (estimateGas_call (test_request 100) (test_calldata 100)) (Inr 0)]"
  using
    maxDeposit_guard [where c = "stub_client test_token 1000 1000 50"
      and p = "test_request 100" and ?s0.0 = 0 and a = test_token and ?s1.0 = 0
      and b = 1000 and ?s2.0 = 0 and al = 1000 and ?s3.0 = 0 and m = 50 and ?s4.0 = 0
      and k = stub_keccak256]
    maxDeposit_guard [where c = "stub_client test_token 100 100 100"
      and p = "test_request 100" and ?s0.0 = 0 and a = test_token and ?s1.0 = 0
      and b = 100 and ?s2.0 = 0 and al = 100 and ?s3.0 = 0 and m = 100 and ?s4.0 = 0
      and k = stub_keccak256]
    test_calldata_encodes [of 100]
  by (simp add: test_request_def)

section \<open>The transaction returned\<close>

lemma resolved_transaction:
  "deposit k c p s0 = (Inr t, s') \<Longrightarrow>
     \<exists>d. deposit_calldata k p = Inr d \<and> tx_data t = d \<and> tx_from t = wallet p
       \<and> tx_to t = vault p \<and> tx_value t = 0
       \<and> snd (snd (deposit k (spy c) p (s0, log0))) \<noteq> []
       \<and> last (snd (snd (deposit k (spy c) p (s0, log0))))
           = EstimateGas (estimateGas_call p d) (Inr (tx_gas t))"
  by (cases rule: deposit_cases [of c p s0 k]) (auto simp: deposit_unfold)

lemma calldata_shape:
  assumes "deposit_calldata k p = Inr d"
  shows "d = ''0x'' @ toFunctionSelector k ''deposit(uint256,address)''
               @ hex_fixed 64 (nat (amount p))
               @ replicate 24 (CHR ''0'') @ map toLowerCase (drop 2 (wallet p))"
    and "0 \<le> amount p" and "amount p < 2 ^ 256" and "isAddress (wallet p)"
  using assms by (simp_all add: deposit_calldata_eq split: if_splits)

lemma length_toFunctionSelector: "length (toFunctionSelector k sig) = 8"
  by (simp add: toFunctionSelector_def)

lemma selector_is_hex: "list_all is_hex_char (toFunctionSelector k sig)"
  by (simp add: toFunctionSelector_def hex_fixed_is_hex)

lemma address_word_is_hex:
  "isAddress w \<Longrightarrow> list_all is_hex_char (replicate 24 (CHR ''0'') @ map toLowerCase (drop 2 w))"
  by (auto simp: isAddress_def list_all_iff is_hex_char_toLowerCase)
     (simp add: is_hex_char_def)

lemma address_word_length:
  "isAddress w \<Longrightarrow> length (replicate 24 (CHR ''0'') @ map toLowerCase (drop 2 w)) = 64"
  by (simp add: isAddress_def)

lemma unat_selector: "unat (drop_bit 224 (w :: 256 word)) < 16 ^ 8"
proof -
  have "unat w < 2 ^ 256" using unsigned_less [of w] by simp
  then have "unat w div 2 ^ 224 < 2 ^ 32"
    by (simp add: less_mult_imp_div_less)
  moreover have "unat (drop_bit 224 w) = drop_bit 224 (unat w)"
    by (rule unat_drop_bit_eq)
  moreover have "drop_bit 224 (unat w) = unat w div 2 ^ 224"
    by (rule drop_bit_eq_div)
  ultimately show ?thesis by simp
qed

lemma test_deposit_resolves:
  assumes "0 \<le> amt" "amt < 2 ^ 256" "amt \<le> uint b" "amt \<le> uint al" "amt \<le> uint m"
    and "0 \<le> s"
  shows "deposit stub_keccak256 (stub_client a b al m) (test_request amt) s
           = (Inr (test_transaction (nat amt) s), s + 1)"
proof -
  have "amount (test_request amt) = amt" "wallet (test_request amt) = test_wallet"
    "vault (test_request amt) = test_vault"
    by (simp_all add: test_request_def)
  with assms show ?thesis
    by (simp add: deposit_unfold test_calldata_encodes test_transaction_def not_less)
qed

text \<open>
  C4, as the specification states it, asks for \<open>gas > 0\<close> on every successful call.
  The source returns the estimate of the client unchecked: on a client whose estimation
  returns 0 the call succeeds with \<open>gas = 0\<close>.
\<close>

theorem positive_gas_counterexample:
  "deposit stub_keccak256 (stub_client test_token 1000 500 1000000) (test_request 100) 0
     = (Inr (test_transaction 100 0), 1)
   \<and> \<not> 0 < tx_gas (test_transaction 100 0)"
  using test_deposit_resolves [of 100 1000 500 1000000 0 test_token]
  by (simp add: test_transaction_def)

text \<open>
  C4, amended. For every successful call the transaction has \<open>from = wallet\<close>,
  \<open>to = vault\<close>, \<open>value = 0\<close>; its gas is the value the client's gas estimation
  returned for this very call (the last query issued); and its data is \<^verbatim>\<open>0x\<close>, the
  eight hex digits of the selector of \<^verbatim>\<open>deposit(uint256,address)\<close>, and 128 more hex
  digits (two 32-byte words).
\<close>

theorem transaction_fields:
  assumes "deposit k c p s0 = (Inr t, s')"
  shows "tx_from t = wallet p \<and> tx_to t = vault p \<and> tx_value t = 0
       \<and> last (snd (snd (deposit k (spy c) p (s0, []))))
           = EstimateGas (estimateGas_call p (tx_data t)) (Inr (tx_gas t))
       \<and> take 2 (tx_data t) = ''0x''
       \<and> take 8 (drop 2 (tx_data t)) = toFunctionSelector k ''deposit(uint256,address)''
       \<and> length (tx_data t) = 2 + 8 + 64 + 64
       \<and> list_all is_hex_char (drop 2 (tx_data t))"
proof -
  from resolved_transaction [OF assms, of "[]"] obtain d where
    d: "deposit_calldata k p = Inr d" "tx_data t = d" and
    f: "tx_from t = wallet p" "tx_to t = vault p" "tx_value t = 0" and
    g: "last (snd (snd (deposit k (spy c) p (s0, []))))
          = EstimateGas (estimateGas_call p d) (Inr (tx_gas t))"
    by blast
  note sh = calldata_shape [OF d(1)]
  have "take 2 d = ''0x''" by (subst sh(1)) simp
  moreover have "take 8 (drop 2 d) = toFunctionSelector k ''deposit(uint256,address)''"
    by (subst sh(1)) (simp add: length_toFunctionSelector)
  moreover have "length d = 2 + 8 + 64 + 64"
    using address_word_length [OF sh(4)]
    by (subst sh(1)) (simp add: length_toFunctionSelector)
  moreover have "list_all is_hex_char (drop 2 d)"
    using address_word_is_hex [OF sh(4)]
    by (subst sh(1)) (simp add: selector_is_hex hex_fixed_is_hex)
  ultimately show ?thesis using d f g by simp
qed

theorem transaction_fields_witness:
  "deposit stub_keccak256 (stub_client test_token 1000 500 1000000) (test_request 100) 52000
     = (Inr (test_transaction 100 52000), 52001)
   \<and> tx_from (test_transaction 100 52000) = wallet (test_request 100)
   \<and> tx_to (test_transaction 100 52000) = vault (test_request 100)
   \<and> tx_value (test_transaction 100 52000) = 0
   \<and> last (snd (snd (deposit stub_keccak256 (spy (stub_client test_token 1000 500 1000000))
                        (test_request 100) (52000, []))))
       = EstimateGas (estimateGas_call (test_request 100) (test_calldata 100)) (Inr 52000)
   \<and> take 2 (test_calldata 100) = ''0x''
   \<and> take 8 (drop 2 (test_calldata 100)) = ''6e553f65''
   \<and> length (test_calldata 100) = 138"
  using test_deposit_resolves [of 100 1000 500 1000000 52000 test_token]
    transaction_fields [of stub_keccak256 "stub_client test_token 1000 500 1000000"
      "test_request 100" 52000 "test_transaction 100 52000" 52001]
  by (simp add: test_transaction_def test_selector)

text \<open>
  C7. For every successful call the data is the encoding of
  \<^verbatim>\<open>deposit(uint256 assets, address receiver)\<close> applied to \<open>(amount, wallet)\<close>: the
  prefix \<^verbatim>\<open>0x\<close>, the selector (four bytes: the top 32 bits of the hash of the
  canonical signature, big-endian), the amount as a 32-byte big-endian word, and the
  wallet address as a 32-byte word, left-padded with zeros.
\<close>

theorem calldata_encoding:
  assumes "deposit k c p s0 = (Inr t, s')"
  shows "Inr (tx_data t)
           = encodeFunctionData k ERC4626_ABI ''deposit'' [AUint (amount p), AAddress (wallet p)]
       \<and> tx_data t = ''0x'' @ toFunctionSelector k ''deposit(uint256,address)''
                         @ hex_fixed 64 (nat (amount p))
                         @ (replicate 24 (CHR ''0'') @ map toLowerCase (drop 2 (wallet p)))
       \<and> length (toFunctionSelector k ''deposit(uint256,address)'') = 8
       \<and> hex_to_nat (toFunctionSelector k ''deposit(uint256,address)'')
           = unat (drop_bit 224 (k ''deposit(uint256,address)''))
       \<and> length (hex_fixed 64 (nat (amount p))) = 64
       \<and> int (hex_to_nat (hex_fixed 64 (nat (amount p)))) = amount p
       \<and> length (replicate 24 (CHR ''0'') @ map toLowerCase (drop 2 (wallet p))) = 64
       \<and> isAddress (wallet p)"
proof -
  from resolved_transaction [OF assms, of "[]"] obtain d where
    d: "deposit_calldata k p = Inr d" "tx_data t = d"
    by blast
  note sh = calldata_shape [OF d(1)]
  have "nat (amount p) < 16 ^ 64"
    using sh(2,3) by (simp add: nat_less_iff)
  then have "int (hex_to_nat (hex_fixed 64 (nat (amount p)))) = amount p"
    using sh(2) by (simp add: hex_to_nat_hex_fixed)
  moreover have "hex_to_nat (toFunctionSelector k ''deposit(uint256,address)'')
           = unat (drop_bit 224 (k ''deposit(uint256,address)''))"
    using unat_selector [of "k ''deposit(uint256,address)''"]
    by (simp add: toFunctionSelector_def hex_to_nat_hex_fixed)
  moreover have "tx_data t = ''0x'' @ toFunctionSelector k ''deposit(uint256,address)''
                         @ hex_fixed 64 (nat (amount p))
                         @ (replicate 24 (CHR ''0'') @ map toLowerCase (drop 2 (wallet p)))"
    using sh(1) d(2) by simp
  moreover have "Inr (tx_data t)
           = encodeFunctionData k ERC4626_ABI ''deposit'' [AUint (amount p), AAddress (wallet p)]"
    using d by (simp add: deposit_calldata_def)
  ultimately show ?thesis
    using address_word_length [OF sh(4)] sh(4)
    by (simp add: length_toFunctionSelector)
qed

theorem calldata_encoding_witness:
  "deposit stub_keccak256 (stub_client test_token 100 100 100) (test_request 100) 52000
     = (Inr (test_transaction 100 52000), 52001)
   \<and> Inr (tx_data (test_transaction 100 52000))
       = encodeFunctionData stub_keccak256 ERC4626_ABI ''deposit''
           [AUint 100, AAddress test_wallet]
   \<and> tx_data (test_transaction 100 52000)
       = ''0x'' @ ''6e553f65'' @ hex_fixed 64 100
         @ (replicate 24 (CHR ''0'') @ map toLowerCase (drop 2 test_wallet))
   \<and> hex_to_nat ''6e553f65'' = unat (drop_bit 224 (stub_keccak256 ''deposit(uint256,address)''))
   \<and> int (hex_to_nat (hex_fixed 64 100)) = 100
   \<and> isAddress test_wallet"
proof -
  have r: "deposit stub_keccak256 (stub_client test_token 100 100 100) (test_request 100) 52000
     = (Inr (test_transaction 100 52000), 52001)"
    using test_deposit_resolves [of 100 100 100 100 52000 test_token] by simp
  from calldata_encoding [OF r] r show ?thesis
    by (auto simp: test_request_def test_selector)
qed

text \<open>
  C10. When the reads succeed, the guards pass and the call encodes, whatever value
  \<open>g\<close> the client's gas estimation returns is the gas of the transaction returned:
  it is not adjusted, rounded or checked for positivity, so an estimate of 0 gives a
  successful call with \<open>gas = 0\<close>.
\<close>

theorem gas_is_estimate:
  assumes "readContract_address c (asset_call p) s0 = (Inr a, s1)"
    and "readContract_uint256 c (balanceOf_call p a) s1 = (Inr b, s2)"
    and "amount p \<le> uint b"
    and "readContract_uint256 c (allowance_call p a) s2 = (Inr al, s3)"
    and "amount p \<le> uint al"
    and "readContract_uint256 c (maxDeposit_call p) s3 = (Inr m, s4)"
    and "amount p \<le> uint m"
    and "deposit_calldata k p = Inr d"
    and "estimateGas c (estimateGas_call p d) s4 = (Inr g, s5)"
  shows "deposit k c p s0
           = (Inr \<lparr> tx_data = d, tx_from = wallet p, tx_to = vault p, tx_value = 0,
                     tx_gas = g \<rparr>, s5)"
  using assms by (simp add: deposit_unfold)

theorem gas_is_estimate_witness:
  "readContract_address (stub_client test_token 100 100 100) (asset_call (test_request 100)) 0
     = (Inr test_token, 0)
   \<and> readContract_uint256 (stub_client test_token 100 100 100)
         (balanceOf_call (test_request 100) test_token) 0 = (Inr 100, 0)
   \<and> readContract_uint256 (stub_client test_token 100 100 100)
         (allowance_call (test_request 100) test_token) 0 = (Inr 100, 0)
   \<and> readContract_uint256 (stub_client test_token 100 100 100)
         (maxDeposit_call (test_request 100)) 0 = (Inr 100, 0)
   \<and> amount (test_request 100) \<le> uint (100 :: 256 word)
   \<and> deposit_calldata stub_keccak256 (test_request 100) = Inr (test_calldata 100)
   \<and> estimateGas (stub_client test_token 100 100 100)
         (estimateGas_call (test_request 100) (test_calldata 100)) 0 = (Inr 0, 1)
   \<and> deposit stub_keccak256 (stub_client test_token 100 100 100) (test_request 100) 0
       = (Inr \<lparr> tx_data = test_calldata 100, tx_from = test_wallet, tx_to = test_vault,
                 tx_value = 0, tx_gas = 0 \<rparr>, 1)"
  using
    gas_is_estimate [where c = "stub_client test_token 100 100 100"
      and p = "test_request 100" and ?s0.0 = 0 and a = test_token and ?s1.0 = 0
      and b = 100 and ?s2.0 = 0 and al = 100 and ?s3.0 = 0 and m = 100 and ?s4.0 = 0
      and k = stub_keccak256 and d = "test_calldata 100" and g = 0 and ?s5.0 = 1]
    test_calldata_encodes [of 100]
  by (simp add: test_request_def)

text \<open>
  C8, as the specification states it, asks for \<open>gas > 0\<close> in both of two successful
  calls with the same request and the same chain reads. Two calls on the test double,
  with the same reads and the estimates 0 and 1, both succeed.
\<close>

theorem repeated_call_counterexample:
  "deposit stub_keccak256 (stub_client test_token 1000 500 1000000) (test_request 100) 0
     = (Inr (test_transaction 100 0), 1)
   \<and> deposit stub_keccak256 (stub_client test_token 1000 500 1000000) (test_request 100) 1
     = (Inr (test_transaction 100 1), 2)
   \<and> \<not> (0 < tx_gas (test_transaction 100 0) \<and> 0 < tx_gas (test_transaction 100 1))"
  using test_deposit_resolves [of 100 1000 500 1000000 0 test_token]
    test_deposit_resolves [of 100 1000 500 1000000 1 test_token]
  by (simp add: test_transaction_def)

text \<open>
  C8, amended. Two successful calls with the same request return transactions with the
  same data, from, to and value (whatever the clients and their reads were, so in
  particular when the reads agree); the gas of each is the estimate its own client
  returned to it, which may differ between the two.
\<close>

theorem repeated_call_fields:
  assumes "deposit k c1 p s1 = (Inr t1, s1')"
    and "deposit k c2 p s2 = (Inr t2, s2')"
  shows "tx_data t1 = tx_data t2 \<and> tx_from t1 = tx_from t2 \<and> tx_to t1 = tx_to t2
       \<and> tx_value t1 = tx_value t2
       \<and> last (snd (snd (deposit k (spy c1) p (s1, []))))
           = EstimateGas (estimateGas_call p (tx_data t1)) (Inr (tx_gas t1))
       \<and> last (snd (snd (deposit k (spy c2) p (s2, []))))
           = EstimateGas (estimateGas_call p (tx_data t2)) (Inr (tx_gas t2))"
  using resolved_transaction [OF assms(1), of "[]"] resolved_transaction [OF assms(2), of "[]"]
  by auto

theorem repeated_call_fields_witness:
  "deposit stub_keccak256 (stub_client test_token 1000 500 1000000) (test_request 100) 52000
     = (Inr (test_transaction 100 52000), 52001)
   \<and> deposit stub_keccak256 (stub_client test_token 1000 500 1000000) (test_request 100) 52001
     = (Inr (test_transaction 100 52001), 52002)
   \<and> tx_data (test_transaction 100 52000) = tx_data (test_transaction 100 52001)
   \<and> tx_from (test_transaction 100 52000) = tx_from (test_transaction 100 52001)
   \<and> tx_to (test_transaction 100 52000) = tx_to (test_transaction 100 52001)
   \<and> tx_value (test_transaction 100 52000) = tx_value (test_transaction 100 52001)
   \<and> last (snd (snd (deposit stub_keccak256 (spy (stub_client test_token 1000 500 1000000))
                        (test_request 100) (52000, []))))
       = EstimateGas (estimateGas_call (test_request 100) (test_calldata 100)) (Inr 52000)
   \<and> last (snd (snd (deposit stub_keccak256 (spy (stub_client test_token 1000 500 1000000))
                        (test_request 100) (52001, []))))
       = EstimateGas (estimateGas_call (test_request 100) (test_calldata 100)) (Inr 52001)"
  using test_deposit_resolves [of 100 1000 500 1000000 52000 test_token]
    test_deposit_resolves [of 100 1000 500 1000000 52001 test_token]
    repeated_call_fields [of stub_keccak256 "stub_client test_token 1000 500 1000000"
      "test_request 100" 52000 "test_transaction 100 52000" 52001
      "stub_client test_token 1000 500 1000000" 52001 "test_transaction 100 52001" 52002]
  by (simp add: test_transaction_def)

section \<open>Zero amounts\<close>




section \<open>Order of the queries and failures of the client\<close>

text \<open>
  C5. The queries of every call are an initial segment of
  \<^verbatim>\<open>asset\<close>, \<^verbatim>\<open>balanceOf\<close>, \<^verbatim>\<open>allowance\<close>, \<^verbatim>\<open>maxDeposit\<close>, gas estimation,
  in this order, the two token reads addressed to the asset the first read returned.
  Every query but the last returned a value that passed its guard; and when one of the
  three errors is raised, the last query is the read whose guard failed (the second,
  third or fourth), so nothing is queried after it.
\<close>

theorem query_order:
  assumes "deposit k (spy c) p (s0, []) = (res, s', log)"
  shows "log \<noteq> []
       \<and> prefix (map query_of log) (planned_queries k p (asset_read log))
       \<and> (\<forall>ev \<in> set (butlast log). lets_through (amount p) ev)
       \<and> (\<forall>x. res = Inl (Thrown x) \<longrightarrow>
             \<not> lets_through (amount p) (last log)
           \<and> length log =
               (case x of NotEnoughBalanceError \<Rightarrow> 2 | MissingAllowanceError \<Rightarrow> 3
                | AmountExceedsMaxDepositError \<Rightarrow> 4))"
  using assms
  by (cases rule: deposit_cases [of "spy c" p "(s0, [])" k])
     (auto simp: planned_queries_def)

theorem query_order_witness:
  "deposit stub_keccak256 (spy (stub_client test_token 1000 1000 50)) (test_request 100) (0, [])
     = (Inl (Thrown AmountExceedsMaxDepositError), 0, test_reads 100 1000 1000 50)
   \<and> test_reads 100 1000 1000 50 \<noteq> []
   \<and> asset_read (test_reads 100 1000 1000 50) = test_token
   \<and> prefix (map query_of (test_reads 100 1000 1000 50))
         (planned_queries stub_keccak256 (test_request 100) test_token)
   \<and> lets_through 100 (test_reads 100 1000 1000 50 ! 0)
   \<and> lets_through 100 (test_reads 100 1000 1000 50 ! 1)
   \<and> lets_through 100 (test_reads 100 1000 1000 50 ! 2)
   \<and> \<not> lets_through 100 (last (test_reads 100 1000 1000 50))
   \<and> length (test_reads 100 1000 1000 50) = 4"
proof -
  have r: "deposit stub_keccak256 (spy (stub_client test_token 1000 1000 50))
             (test_request 100) (0, [])
           = (Inl (Thrown AmountExceedsMaxDepositError), 0, test_reads 100 1000 1000 50)"
    by (simp add: deposit_unfold test_reads_def) (simp add: test_request_def)
  from query_order [OF r] r show ?thesis
    by (simp add: test_reads_def test_request_def)
qed

text \<open>
  C6. When any query of a call fails with \<open>e\<close>, the call rejects with this very
  \<open>e\<close>, not with one of the three errors of the source; the failed query is the last
  one issued, every earlier one had succeeded, and no query is issued twice (no retry,
  no fallback).
\<close>

theorem client_failure_propagates:
  assumes "deposit k (spy c) p (s0, []) = (res, s', log)"
    and "ev \<in> set log"
    and "failure ev = Some e"
  shows "res = Inl (ClientError e)
       \<and> deposit k c p s0 = (Inl (ClientError e), s')
       \<and> (\<forall>x. res \<noteq> Inl (Thrown x))
       \<and> ev = last log
       \<and> (\<forall>ev' \<in> set (butlast log). failure ev' = None)
       \<and> distinct (map query_of log)"
proof -
  have r: "fst (deposit k c p s0) = res" "snd (deposit k c p s0) = s'"
    using spy_result [of k c p s0 "[]"] spy_state [of k c p s0 "[]"] assms(1) by simp_all
  have "res = Inl (ClientError e) \<and> ev = last log
       \<and> (\<forall>ev' \<in> set (butlast log). failure ev' = None)
       \<and> distinct (map query_of log)"
    using assms
    by (cases rule: deposit_cases [of "spy c" p "(s0, [])" k])
       (auto simp: call_defs)
  with r show ?thesis by (auto simp: prod_eq_iff)
qed

theorem client_failure_propagates_witness:
  "deposit stub_keccak256 (spy (stub_client test_token 100 100 100)) (test_request 100)
       (- 1, [])
     = (Inl (ClientError ''execution reverted''), - 1,
        test_reads 100 100 100 100
          @ [EstimateGas (estimateGas_call (test_request 100) (test_calldata 100))
               (Inl ''execution reverted'')])
   \<and> failure (EstimateGas (estimateGas_call (test_request 100) (test_calldata 100))
                 (Inl ''execution reverted'' :: string + int))
       = Some ''execution reverted''
   \<and> deposit stub_keccak256 (stub_client test_token 100 100 100) (test_request 100) (- 1)
       = (Inl (ClientError ''execution reverted''), - 1)
   \<and> failure (test_reads 100 100 100 100 ! 0) = None
   \<and> failure (test_reads 100 100 100 100 ! 1) = None
   \<and> failure (test_reads 100 100 100 100 ! 2) = None
   \<and> failure (test_reads 100 100 100 100 ! 3) = None
   \<and> distinct (map query_of
         (test_reads 100 100 100 100
            @ [EstimateGas (estimateGas_call (test_request 100) (test_calldata 100))
                 (Inl ''execution reverted'')]))"
proof -
  have a: "amount (test_request 100) = 100" "wallet (test_request 100) = test_wallet"
    "vault (test_request 100) = test_vault"
    by (simp_all add: test_request_def)
  have r: "deposit stub_keccak256 (spy (stub_client test_token 100 100 100))
             (test_request 100) (- 1, [])
     = (Inl (ClientError ''execution reverted''), - 1,
        test_reads 100 100 100 100
          @ [EstimateGas (estimateGas_call (test_request 100) (test_calldata 100))
               (Inl ''execution reverted'')])"
    using test_calldata_encodes [of 100]
    by (simp add: deposit_unfold test_reads_def a)
  from client_failure_propagates [OF r, of
      "EstimateGas (estimateGas_call (test_request 100) (test_calldata 100))
         (Inl ''execution reverted'')" "''execution reverted''"] r
  show ?thesis
    by (simp add: test_reads_def)
qed

end
